theory Spec2Isabelle
  imports Complex_Main "HOL-Library.Sublist"
begin

section \<open>Python values\<close>

text \<open>
  The scraper works on what \<^verbatim>\<open>json.loads\<close> returns: \<^verbatim>\<open>None\<close>, booleans, integers,
  floats, strings, lists and dictionaries. A Python \<^verbatim>\<open>str\<close> is modelled by its UTF-8
  encoding (a \<^typ>\<open>string\<close>): every delimiter the program looks for is ASCII, and a byte
  below 128 in a UTF-8 string is always an ASCII character of its own. A dictionary is an
  association list with distinct keys, read with \<^const>\<open>map_of\<close>. A float is the real
  number it denotes, or one of the three non-finite values.
\<close>

datatype pyfloat = Finite real | PosInf | NegInf | NaN

datatype json =
    JNull
  | JBool bool
  | JInt int
  | JFloat pyfloat
  | JStr string
  | JArr "json list"
  | JObj "(string \<times> json) list"

text \<open>The exceptions the modelled code can raise; each is a value \<open>Inl e\<close> of the result.\<close>

datatype error =
    ValueError string
  | RuntimeError string
  | TypeError
  | AttributeError
  | KeyError string
  | OverflowError
  | JSONDecodeError
  | HTTPError nat
  | RequestException

definition and_then :: "error + 'a \<Rightarrow> ('a \<Rightarrow> error + 'b) \<Rightarrow> error + 'b" where
  "and_then m f = (case m of Inl e \<Rightarrow> Inl e | Inr x \<Rightarrow> f x)"

text \<open>Truth value testing: \<^verbatim>\<open>bool(v)\<close>, as \<^verbatim>\<open>not v\<close> and \<^verbatim>\<open>a or b\<close> use it.\<close>

definition truthy :: "json \<Rightarrow> bool" where
  "truthy v =
     (case v of
        JNull \<Rightarrow> False
      | JBool b \<Rightarrow> b
      | JInt n \<Rightarrow> n \<noteq> 0
      | JFloat f \<Rightarrow> (case f of Finite r \<Rightarrow> r \<noteq> 0 | _ \<Rightarrow> True)
      | JStr s \<Rightarrow> s \<noteq> []
      | JArr xs \<Rightarrow> xs \<noteq> []
      | JObj kvs \<Rightarrow> kvs \<noteq> [])"

definition py_or :: "json \<Rightarrow> json \<Rightarrow> json" where
  "py_or a b = (if truthy a then a else b)"

text \<open>
  \<^verbatim>\<open>obj.get(key, default)\<close>: only a dictionary has the method, every other value raises
  AttributeError. \<^verbatim>\<open>obj[key]\<close> with a string key: KeyError on a dictionary without the
  key, TypeError on every value that is not a dictionary.
\<close>

definition dict_get :: "json \<Rightarrow> string \<Rightarrow> json \<Rightarrow> error + json" where
  "dict_get obj k d =
     (case obj of
        JObj kvs \<Rightarrow> Inr (case map_of kvs k of None \<Rightarrow> d | Some v \<Rightarrow> v)
      | _ \<Rightarrow> Inl AttributeError)"

definition subscript :: "json \<Rightarrow> string \<Rightarrow> error + json" where
  "subscript obj k =
     (case obj of
        JObj kvs \<Rightarrow> (case map_of kvs k of None \<Rightarrow> Inl (KeyError k) | Some v \<Rightarrow> Inr v)
      | _ \<Rightarrow> Inl TypeError)"

section \<open>Text\<close>

definition is_ascii :: "char \<Rightarrow> bool" where
  "is_ascii c = ((of_char c :: nat) < 128)"

definition ascii_upper :: string where
  "ascii_upper = ''ABCDEFGHIJKLMNOPQRSTUVWXYZ''"

definition ascii_lower :: string where
  "ascii_lower = ''abcdefghijklmnopqrstuvwxyz''"

text \<open>\<^verbatim>\<open>str.lower()\<close> on ASCII text; the program only lowers text that is ASCII already.\<close>

definition lower_char :: "char \<Rightarrow> char" where
  "lower_char c = (case map_of (zip ascii_upper ascii_lower) c of None \<Rightarrow> c | Some d \<Rightarrow> d)"

text \<open>
  The characters \<^verbatim>\<open>str.strip()\<close> removes (those with \<^verbatim>\<open>str.isspace()\<close>), each in UTF-8:
  U+0009 to U+000D, U+001C to U+0020, U+0085, U+00A0, U+1680, U+2000 to U+200A, U+2028,
  U+2029, U+202F, U+205F and U+3000.
\<close>

definition whitespace :: "string list" where
  "whitespace =
     [[CHR 0x09], [CHR 0x0A], [CHR 0x0B], [CHR 0x0C], [CHR 0x0D],
      [CHR 0x1C], [CHR 0x1D], [CHR 0x1E], [CHR 0x1F], [CHR 0x20],
      [CHR 0xC2, CHR 0x85], [CHR 0xC2, CHR 0xA0], [CHR 0xE1, CHR 0x9A, CHR 0x80],
      [CHR 0xE2, CHR 0x80, CHR 0x80], [CHR 0xE2, CHR 0x80, CHR 0x81],
      [CHR 0xE2, CHR 0x80, CHR 0x82], [CHR 0xE2, CHR 0x80, CHR 0x83],
      [CHR 0xE2, CHR 0x80, CHR 0x84], [CHR 0xE2, CHR 0x80, CHR 0x85],
      [CHR 0xE2, CHR 0x80, CHR 0x86], [CHR 0xE2, CHR 0x80, CHR 0x87],
      [CHR 0xE2, CHR 0x80, CHR 0x88], [CHR 0xE2, CHR 0x80, CHR 0x89],
      [CHR 0xE2, CHR 0x80, CHR 0x8A], [CHR 0xE2, CHR 0x80, CHR 0xA8],
      [CHR 0xE2, CHR 0x80, CHR 0xA9], [CHR 0xE2, CHR 0x80, CHR 0xAF],
      [CHR 0xE2, CHR 0x81, CHR 0x9F], [CHR 0xE3, CHR 0x80, CHR 0x80]]"

text \<open>Removes, from the left, every leading occurrence of one of the sequences \<open>ws\<close>.\<close>

function strip_left :: "string list \<Rightarrow> string \<Rightarrow> string" where
  "strip_left ws s =
     (case find (\<lambda>w. w \<noteq> [] \<and> prefix w s) ws of
        None \<Rightarrow> s
      | Some w \<Rightarrow> strip_left ws (drop (length w) s))"
  by pat_completeness auto
termination
proof (relation "measure (\<lambda>(ws, s). length s)")
  show "wf (measure (\<lambda>(ws, s). length s))"
    by simp
next
  fix ws :: "string list" and s w :: string
  assume "find (\<lambda>w. w \<noteq> [] \<and> prefix w s) ws = Some w"
  then have "w \<noteq> []" and "prefix w s"
    by (auto simp: find_Some_iff)
  then have "s \<noteq> []"
    by auto
  with \<open>w \<noteq> []\<close> show "((ws, drop (length w) s), (ws, s)) \<in> measure (\<lambda>(ws, s). length s)"
    by simp
qed

declare strip_left.simps [simp del]

definition py_lstrip :: "string \<Rightarrow> string" where
  "py_lstrip s = strip_left whitespace s"

definition py_rstrip :: "string \<Rightarrow> string" where
  "py_rstrip s = rev (strip_left (map rev whitespace) (rev s))"

definition py_strip :: "string \<Rightarrow> string" where
  "py_strip s = py_rstrip (py_lstrip s)"

text \<open>
  \<^verbatim>\<open>_normalize_text\<close>. The Unicode decomposition \<^verbatim>\<open>unicodedata.normalize("NFKD", _)\<close> is
  the parameter \<open>nfkd\<close>; \<^verbatim>\<open>encode("ascii", "ignore").decode("ascii")\<close> drops every
  character that is not ASCII. The argument is any value: \<^verbatim>\<open>value or ""\<close> replaces a falsy
  one, and a truthy value that is not a string makes \<^verbatim>\<open>unicodedata.normalize\<close> raise
  TypeError.
\<close>

definition normalize_text :: "(string \<Rightarrow> string) \<Rightarrow> json \<Rightarrow> error + string" where
  "normalize_text nfkd v =
     (case py_or v (JStr []) of
        JStr s \<Rightarrow>
          (let normalized = nfkd s;
               ascii_only = filter is_ascii normalized
           in Inr (py_strip (map lower_char ascii_only)))
      | _ \<Rightarrow> Inl TypeError)"

text \<open>What is known of NFKD: it leaves text that is ASCII only as it is.\<close>

definition fixes_ascii :: "(string \<Rightarrow> string) \<Rightarrow> bool" where
  "fixes_ascii nfkd = (\<forall>s. list_all is_ascii s \<longrightarrow> nfkd s = s)"

text \<open>
  A small instance of the decomposition, enough to run the normalizer on Latin text:
  U+00E9 (e acute, C3 A9 in UTF-8) decomposes into \<open>e\<close> and the combining acute accent
  U+0301 (CC 81), U+00ED (i acute, C3 AD) into \<open>i\<close> and the same accent; every other byte
  is kept.
\<close>

fun nfkd_latin :: "string \<Rightarrow> string" where
  "nfkd_latin (a # b # s) =
     (if a = CHR 0xC3 \<and> b = CHR 0xA9 then CHR ''e'' # CHR 0xCC # CHR 0x81 # nfkd_latin s
      else if a = CHR 0xC3 \<and> b = CHR 0xAD then CHR ''i'' # CHR 0xCC # CHR 0x81 # nfkd_latin s
      else a # nfkd_latin (b # s))"
| "nfkd_latin s = s"

section \<open>The runtime the program relies on\<close>

text \<open>
  Library code and the network are not part of the program. What the program asks of them
  is a field of the environment \<open>E\<close>:
  \<^item> \<open>ip_address\<close>: \<^verbatim>\<open>ipaddress.ip_address\<close>, the kind of address a text denotes, or \<open>None\<close>
    where it raises ValueError;
  \<^item> \<open>nfkc\<close>: \<^verbatim>\<open>unicodedata.normalize("NFKC", _)\<close>;
  \<^item> \<open>http_get\<close>: the answer of the network to \<^verbatim>\<open>session.get(url, params=..., timeout=...)\<close>,
    an error where the call raises (no connection, timeout, malformed URL);
  \<^item> \<open>soup_script\<close>: \<^verbatim>\<open>BeautifulSoup(html, "html.parser").find("script", id="__NEXT_DATA__")\<close>:
    \<open>None\<close> when there is no such tag, else the tag's \<^verbatim>\<open>.string\<close> (\<open>None\<close> when it has none);
  \<^item> \<open>json_loads\<close>: \<^verbatim>\<open>json.loads\<close>, \<open>None\<close> where it raises;
  \<^item> \<open>int_of_str\<close>: \<^verbatim>\<open>int(s)\<close> for a string, \<open>None\<close> where it raises ValueError;
  \<^item> \<open>py_repr\<close>: \<^verbatim>\<open>str(v)\<close> for a float, a list or a dictionary.
\<close>

datatype ipkind = IPv4 | IPv6

record response =
  status_code :: nat
  body :: string

type_synonym request = "string \<times> (string \<times> int) list \<times> nat"

record pyenv =
  ip_address :: "string \<Rightarrow> ipkind option"
  nfkc :: "string \<Rightarrow> string"
  http_get :: "request \<Rightarrow> error + response"
  soup_script :: "string \<Rightarrow> string option option"
  json_loads :: "string \<Rightarrow> json option"
  int_of_str :: "string \<Rightarrow> int option"
  py_repr :: "json \<Rightarrow> string"

section \<open>urllib.parse\<close>

text \<open>
  \<^verbatim>\<open>urlparse\<close>, \<^verbatim>\<open>urlunparse\<close> and \<^verbatim>\<open>urljoin\<close> on \<^verbatim>\<open>str\<close> arguments with
  \<^verbatim>\<open>allow_fragments=True\<close>, after CPython 3.11.
\<close>

definition uses_relative :: "string list" where
  "uses_relative = ['''', ''ftp'', ''http'', ''gopher'', ''nntp'', ''imap'', ''wais'', ''file'',
     ''https'', ''shttp'', ''mms'', ''prospero'', ''rtsp'', ''rtsps'', ''rtspu'', ''sftp'',
     ''svn'', ''svn+ssh'', ''ws'', ''wss'']"

definition uses_netloc :: "string list" where
  "uses_netloc = ['''', ''ftp'', ''http'', ''gopher'', ''nntp'', ''telnet'', ''imap'', ''wais'',
     ''file'', ''mms'', ''https'', ''shttp'', ''snews'', ''prospero'', ''rtsp'', ''rtsps'',
     ''rtspu'', ''rsync'', ''svn'', ''svn+ssh'', ''sftp'', ''nfs'', ''git'', ''git+ssh'',
     ''ws'', ''wss'']"

definition uses_params :: "string list" where
  "uses_params = ['''', ''ftp'', ''hdl'', ''prospero'', ''http'', ''imap'', ''https'', ''shttp'',
     ''rtsp'', ''rtsps'', ''rtspu'', ''sip'', ''sips'', ''mms'', ''sftp'', ''tel'']"

definition scheme_chars :: string where
  "scheme_chars = ascii_lower @ ascii_upper @ ''0123456789+-.''"

definition is_alpha :: "char \<Rightarrow> bool" where
  "is_alpha c = (c \<in> set (ascii_lower @ ascii_upper))"

definition c0_control_or_space :: "char \<Rightarrow> bool" where
  "c0_control_or_space c = ((of_char c :: nat) \<le> 0x20)"

definition unsafe_url_byte :: "char \<Rightarrow> bool" where
  "unsafe_url_byte c = (c = CHR 0x09 \<or> c = CHR 0x0D \<or> c = CHR 0x0A)"

text \<open>
  \<^verbatim>\<open>s.partition(c)\<close> gives the text before the first \<open>c\<close> and the text after it; when
  \<open>c\<close> does not occur these are \<open>s\<close> and the empty string, as for \<^verbatim>\<open>s.split(c, 1)\<close>.
\<close>

definition before :: "char \<Rightarrow> string \<Rightarrow> string" where
  "before c s = takeWhile (\<lambda>x. x \<noteq> c) s"

definition after :: "char \<Rightarrow> string \<Rightarrow> string" where
  "after c s = drop 1 (dropWhile (\<lambda>x. x \<noteq> c) s)"

definition is_hex :: "char \<Rightarrow> bool" where
  "is_hex c = (c \<in> set ''abcdefABCDEF0123456789'')"

text \<open>\<^verbatim>\<open>_check_bracketed_host\<close>; the pattern is \<^verbatim>\<open>\Av[a-fA-F0-9]+\..+\Z\<close>.\<close>

definition check_bracketed_host :: "pyenv \<Rightarrow> string \<Rightarrow> error + unit" where
  "check_bracketed_host E hostname =
     (if take 1 hostname = ''v'' then
        (let digits = takeWhile is_hex (drop 1 hostname);
             rest = dropWhile is_hex (drop 1 hostname)
         in if digits \<noteq> [] \<and> take 1 rest = ''.'' \<and> drop 1 rest \<noteq> []
               \<and> CHR 0x0A \<notin> set (drop 1 rest)
            then Inr ()
            else Inl (ValueError ''IPvFuture address is invalid''))
      else
        (case ip_address E hostname of
           None \<Rightarrow> Inl (ValueError ''does not appear to be an IPv4 or IPv6 address'')
         | Some IPv4 \<Rightarrow> Inl (ValueError ''An IPv4 address cannot be in brackets'')
         | Some IPv6 \<Rightarrow> Inr ()))"

text \<open>\<^verbatim>\<open>_checknetloc\<close>.\<close>

definition checknetloc :: "pyenv \<Rightarrow> string \<Rightarrow> error + unit" where
  "checknetloc E nl =
     (if nl = [] \<or> list_all is_ascii nl then Inr ()
      else
        (let n = filter (\<lambda>c. c \<notin> set ''@:#?'') nl;
             netloc2 = nfkc E n
         in if n = netloc2 then Inr ()
            else if list_ex (\<lambda>c. c \<in> set netloc2) ''/?#@:''
            then Inl (ValueError (''netloc '' @ [CHR 0x27] @ nl @ [CHR 0x27]
                       @ '' contains invalid characters under NFKC normalization''))
            else Inr ()))"

text \<open>\<^verbatim>\<open>_splitnetloc(url, 2)\<close>: the text after the two slashes up to the first of \<open>/?#\<close>.\<close>

definition netloc_end :: "char \<Rightarrow> bool" where
  "netloc_end c = (c \<in> set ''/?#'')"

text \<open>
  \<^verbatim>\<open>urlsplit(url, scheme)\<close>; the result is (scheme, netloc, path, query, fragment).
\<close>

definition urlsplit :: "pyenv \<Rightarrow> string \<Rightarrow> string \<Rightarrow> error + string \<times> string \<times> string \<times> string \<times> string" where
  "urlsplit E url0 scheme0 =
     (let url1 = filter (\<lambda>c. \<not> unsafe_url_byte c) (dropWhile c0_control_or_space url0);
          scheme1 = filter (\<lambda>c. \<not> unsafe_url_byte c)
                      (rev (dropWhile c0_control_or_space (rev (dropWhile c0_control_or_space scheme0))));
          has_scheme = (CHR '':'' \<in> set url1 \<and> before CHR '':'' url1 \<noteq> []
                        \<and> is_ascii (hd url1) \<and> is_alpha (hd url1)
                        \<and> list_all (\<lambda>c. c \<in> set scheme_chars) (before CHR '':'' url1));
          scheme2 = (if has_scheme then map lower_char (before CHR '':'' url1) else scheme1);
          url2 = (if has_scheme then after CHR '':'' url1 else url1);
          has_netloc = (take 2 url2 = ''//'');
          nl = (if has_netloc then takeWhile (\<lambda>c. \<not> netloc_end c) (drop 2 url2) else []);
          url3 = (if has_netloc then dropWhile (\<lambda>c. \<not> netloc_end c) (drop 2 url2) else url2)
      in
        if has_netloc \<and> ((CHR ''['' \<in> set nl \<and> CHR '']'' \<notin> set nl)
                          \<or> (CHR '']'' \<in> set nl \<and> CHR ''['' \<notin> set nl))
        then Inl (ValueError ''Invalid IPv6 URL'')
        else
          and_then
            (if has_netloc \<and> CHR ''['' \<in> set nl \<and> CHR '']'' \<in> set nl
             then check_bracketed_host E (before CHR '']'' (after CHR ''['' nl))
             else Inr ())
            (\<lambda>_.
               let frag = after CHR ''#'' url3;
                   url4 = before CHR ''#'' url3;
                   qry = after CHR ''?'' url4;
                   url5 = before CHR ''?'' url4
               in and_then (checknetloc E nl) (\<lambda>_. Inr (scheme2, nl, url5, qry, frag))))"

record url_parts =
  url_scheme :: string
  url_netloc :: string
  url_path :: string
  url_params :: string
  url_query :: string
  url_fragment :: string

text \<open>
  \<^verbatim>\<open>_splitparams\<close>: the parameters follow the first \<open>;\<close> of the last path segment.
\<close>

definition splitparams :: "string \<Rightarrow> string \<times> string" where
  "splitparams url =
     (let seg = rev (takeWhile (\<lambda>c. c \<noteq> CHR ''/'') (rev url));
          dir = rev (dropWhile (\<lambda>c. c \<noteq> CHR ''/'') (rev url))
      in if CHR '';'' \<in> set seg then (dir @ before CHR '';'' seg, after CHR '';'' seg)
         else (url, []))"

definition urlparse :: "pyenv \<Rightarrow> string \<Rightarrow> string \<Rightarrow> error + url_parts" where
  "urlparse E url scheme0 =
     and_then (urlsplit E url scheme0)
       (\<lambda>(sc, nl, u, qry, frag).
          let (u', prm) = (if sc \<in> set uses_params \<and> CHR '';'' \<in> set u
                           then splitparams u else (u, []))
          in Inr \<lparr>url_scheme = sc, url_netloc = nl, url_path = u', url_params = prm,
                  url_query = qry, url_fragment = frag\<rparr>)"

definition urlunsplit :: "string \<Rightarrow> string \<Rightarrow> string \<Rightarrow> string \<Rightarrow> string \<Rightarrow> string" where
  "urlunsplit sc nl url0 qry frag =
     (let url1 = (if nl \<noteq> [] \<or> (sc \<noteq> [] \<and> sc \<in> set uses_netloc) \<or> take 2 url0 = ''//''
                  then ''//'' @ nl @ (if url0 \<noteq> [] \<and> take 1 url0 \<noteq> ''/'' then ''/'' @ url0 else url0)
                  else url0);
          url2 = (if sc \<noteq> [] then sc @ '':'' @ url1 else url1);
          url3 = (if qry \<noteq> [] then url2 @ ''?'' @ qry else url2)
      in if frag \<noteq> [] then url3 @ ''#'' @ frag else url3)"

definition urlunparse :: "url_parts \<Rightarrow> string" where
  "urlunparse p =
     urlunsplit (url_scheme p) (url_netloc p)
       (if url_params p \<noteq> [] then url_path p @ '';'' @ url_params p else url_path p)
       (url_query p) (url_fragment p)"

text \<open>\<^verbatim>\<open>s.split(c)\<close> and \<^verbatim>\<open>c.join(parts)\<close>.\<close>

fun split_on :: "char \<Rightarrow> string \<Rightarrow> string list" where
  "split_on c [] = [[]]"
| "split_on c (x # xs) =
     (if x = c then [] # split_on c xs
      else (case split_on c xs of [] \<Rightarrow> [[x]] | w # ws \<Rightarrow> (x # w) # ws))"

fun join_with :: "char \<Rightarrow> string list \<Rightarrow> string" where
  "join_with c [] = []"
| "join_with c [w] = w"
| "join_with c (w # ws) = w @ c # join_with c ws"

text \<open>One round of the loop of \<^verbatim>\<open>urljoin\<close> that removes the dot segments.\<close>

definition resolve_step :: "string list \<Rightarrow> string \<Rightarrow> string list" where
  "resolve_step resolved_path seg =
     (if seg = ''..'' then butlast resolved_path
      else if seg = ''.'' then resolved_path
      else resolved_path @ [seg])"

definition urljoin :: "pyenv \<Rightarrow> string \<Rightarrow> string \<Rightarrow> error + string" where
  "urljoin E base url =
     (if base = [] then Inr url
      else if url = [] then Inr base
      else
        and_then (urlparse E base [])
          (\<lambda>b. and_then (urlparse E url (url_scheme b))
            (\<lambda>u.
               if url_scheme u \<noteq> url_scheme b \<or> url_scheme u \<notin> set uses_relative then Inr url
               else if url_scheme u \<in> set uses_netloc \<and> url_netloc u \<noteq> [] then Inr (urlunparse u)
               else
                 let nl = (if url_scheme u \<in> set uses_netloc then url_netloc b else url_netloc u)
                 in if url_path u = [] \<and> url_params u = [] then
                      Inr (urlunparse (u\<lparr>url_netloc := nl, url_path := url_path b,
                             url_params := url_params b,
                             url_query := (if url_query u = [] then url_query b else url_query u)\<rparr>))
                    else
                      let parts0 = split_on CHR ''/'' (url_path b);
                          base_parts = (if last parts0 \<noteq> [] then butlast parts0 else parts0);
                          joined = base_parts @ split_on CHR ''/'' (url_path u);
                          segments =
                            (if take 1 (url_path u) = ''/'' then split_on CHR ''/'' (url_path u)
                             else if length joined < 2 then joined
                             else hd joined # filter (\<lambda>w. w \<noteq> []) (butlast (tl joined)) @ [last joined]);
                          resolved0 = foldl resolve_step [] segments;
                          resolved_path = (if last segments = ''.'' \<or> last segments = ''..''
                                           then resolved0 @ [[]] else resolved0);
                          joined_path = join_with CHR ''/'' resolved_path
                      in Inr (urlunparse (u\<lparr>url_netloc := nl,
                                url_path := (if joined_path = [] then ''/'' else joined_path)\<rparr>)))))"

section \<open>Conversions and iteration\<close>

text \<open>\<^verbatim>\<open>str(n)\<close> for an integer: its decimal digits.\<close>

fun str_nat :: "nat \<Rightarrow> string" where
  "str_nat n =
     (if n < 10 then [''0123456789'' ! n]
      else str_nat (n div 10) @ [''0123456789'' ! (n mod 10)])"

declare str_nat.simps [simp del]

definition str_int :: "int \<Rightarrow> string" where
  "str_int i = (if i < 0 then CHR ''-'' # str_nat (nat (- i)) else str_nat (nat i))"

text \<open>What an f-string puts in for a value: \<^verbatim>\<open>str(v)\<close>.\<close>

definition py_str :: "pyenv \<Rightarrow> json \<Rightarrow> string" where
  "py_str E v =
     (case v of
        JStr s \<Rightarrow> s
      | JInt n \<Rightarrow> str_int n
      | JBool b \<Rightarrow> (if b then ''True'' else ''False'')
      | JNull \<Rightarrow> ''None''
      | _ \<Rightarrow> py_repr E v)"

text \<open>\<^verbatim>\<open>int(v)\<close>; a float is truncated towards zero.\<close>

definition py_int :: "pyenv \<Rightarrow> json \<Rightarrow> error + int" where
  "py_int E v =
     (case v of
        JInt n \<Rightarrow> Inr n
      | JBool b \<Rightarrow> Inr (if b then 1 else 0)
      | JFloat f \<Rightarrow>
          (case f of
             Finite r \<Rightarrow> Inr (if r < 0 then - \<lfloor>- r\<rfloor> else \<lfloor>r\<rfloor>)
           | NaN \<Rightarrow> Inl (ValueError ''cannot convert float NaN to integer'')
           | _ \<Rightarrow> Inl OverflowError)
      | JStr s \<Rightarrow>
          (case int_of_str E s of
             None \<Rightarrow> Inl (ValueError ''invalid literal for int() with base 10'')
           | Some n \<Rightarrow> Inr n)
      | _ \<Rightarrow> Inl TypeError)"

text \<open>
  The characters of a string, each in UTF-8: a byte from 0x80 to 0xBF continues the
  character before it.
\<close>

definition is_continuation :: "char \<Rightarrow> bool" where
  "is_continuation c = (128 \<le> (of_char c :: nat) \<and> (of_char c :: nat) < 192)"

function utf8_chars :: "string \<Rightarrow> string list" where
  "utf8_chars [] = []"
| "utf8_chars (c # cs) =
     (c # takeWhile is_continuation cs) # utf8_chars (dropWhile is_continuation cs)"
  by pat_completeness auto
termination
  by (relation "measure length") (auto simp: length_dropWhile_le less_Suc_eq_le)

text \<open>
  What a \<^verbatim>\<open>for\<close> loop or \<^verbatim>\<open>yield from\<close> iterates over: the items of a list, the keys of
  a dictionary, the characters of a string; every other value raises TypeError.
\<close>

definition items_of :: "json \<Rightarrow> error + json list" where
  "items_of v =
     (case v of
        JArr xs \<Rightarrow> Inr xs
      | JObj kvs \<Rightarrow> Inr (map (\<lambda>kv. JStr (fst kv)) kvs)
      | JStr s \<Rightarrow> Inr (map JStr (utf8_chars s))
      | _ \<Rightarrow> Inl TypeError)"

section \<open>MedicosDocScraper: fetching\<close>

text \<open>
  Every \<^verbatim>\<open>session.get\<close> is recorded: a function that makes requests takes the list of
  requests made so far and returns it extended. A request is the URL, the query
  parameters and the timeout.
\<close>

definition session_get :: "pyenv \<Rightarrow> request list \<Rightarrow> request \<Rightarrow> request list \<times> (error + response)" where
  "session_get E reqs rq = (reqs @ [rq], http_get E rq)"

definition raise_for_status :: "response \<Rightarrow> error + unit" where
  "raise_for_status r =
     (if 400 \<le> status_code r \<and> status_code r < 600 then Inl (HTTPError (status_code r))
      else Inr ())"

text \<open>\<^verbatim>\<open>_get_html\<close>.\<close>

definition get_html :: "pyenv \<Rightarrow> request list \<Rightarrow> string \<Rightarrow> request list \<times> (error + string)" where
  "get_html E reqs url =
     (case session_get E reqs (url, [], 30) of
        (reqs', r) \<Rightarrow>
          (reqs', and_then r (\<lambda>resp. and_then (raise_for_status resp) (\<lambda>_. Inr (body resp)))))"

text \<open>\<^verbatim>\<open>_data_path\<close>.\<close>

definition data_path :: "pyenv \<Rightarrow> string \<Rightarrow> error + string" where
  "data_path E directory_url =
     and_then (urlparse E directory_url [])
       (\<lambda>parsed.
          let p1 = dropWhile (\<lambda>c. c = CHR ''/'') (url_path parsed);
              p2 = (if p1 \<noteq> [] \<and> last p1 = CHR ''/'' then butlast p1 else p1)
          in Inr (if p2 = [] then ''index'' else p2))"

text \<open>\<^verbatim>\<open>_parse_initial_payload\<close>: the build id, the path part and the directory data.\<close>

definition parse_initial_payload :: "pyenv \<Rightarrow> string \<Rightarrow> string \<Rightarrow> error + json \<times> string \<times> json" where
  "parse_initial_payload E directory_url html =
     (case soup_script E html of
        Some (Some (c # cs)) \<Rightarrow>
          (case json_loads E (c # cs) of
             None \<Rightarrow> Inl JSONDecodeError
           | Some next_payload \<Rightarrow>
               and_then (dict_get next_payload ''buildId'' JNull)
                 (\<lambda>build_id.
                    if \<not> truthy build_id
                    then Inl (RuntimeError ''Could not find buildId; site layout may have changed.'')
                    else
                      and_then (data_path E directory_url)
                        (\<lambda>path_part.
                           and_then (dict_get next_payload ''props'' (JObj []))
                             (\<lambda>props. and_then (dict_get props ''pageProps'' (JObj []))
                               (\<lambda>page_props. and_then (dict_get page_props ''directoryDoctors'' (JObj []))
                                 (\<lambda>directory_data.
                                    if \<not> truthy directory_data
                                    then Inl (RuntimeError ''Directory data missing from initial payload.'')
                                    else Inr (build_id, path_part, directory_data)))))))
      | _ \<Rightarrow> Inl (RuntimeError ''Could not locate __NEXT_DATA__ on the page.''))"

text \<open>
  \<^verbatim>\<open>_fetch_page\<close>, in three parts: \<open>data_url\<close> builds the URL of the data endpoint,
  \<open>page_payload\<close> is the request and \<^verbatim>\<open>response.json()\<close>, \<open>page_data\<close> the
  \<^verbatim>\<open>try\<close> block that reads the entries and turns a KeyError into the RuntimeError
  that names the page.
\<close>

definition data_url :: "pyenv \<Rightarrow> string \<Rightarrow> json \<Rightarrow> string \<Rightarrow> error + string" where
  "data_url E directory_url build_id path_part =
     and_then (urlparse E directory_url [])
       (\<lambda>parsed.
          let data_path' = ''/_next/data/'' @ py_str E build_id @ ''/'' @ path_part @ ''.json''
          in Inr (urlunparse \<lparr>url_scheme = url_scheme parsed, url_netloc = url_netloc parsed,
                    url_path = data_path', url_params = [], url_query = [], url_fragment = []\<rparr>))"

definition page_payload :: "pyenv \<Rightarrow> request list \<Rightarrow> string \<Rightarrow> json \<Rightarrow> string \<Rightarrow> int \<Rightarrow> request list \<times> (error + json)" where
  "page_payload E reqs directory_url build_id path_part page =
     (case data_url E directory_url build_id path_part of
        Inl e \<Rightarrow> (reqs, Inl e)
      | Inr url \<Rightarrow>
          (case session_get E reqs (url, [(''page'', page)], 30) of
             (reqs', r) \<Rightarrow>
               (reqs', and_then r (\<lambda>resp. and_then (raise_for_status resp)
                  (\<lambda>_. case json_loads E (body resp) of
                         None \<Rightarrow> Inl JSONDecodeError
                       | Some payload \<Rightarrow> Inr payload)))))"

definition page_data :: "json \<Rightarrow> int \<Rightarrow> error + json" where
  "page_data payload page =
     (case and_then (subscript payload ''pageProps'')
             (\<lambda>page_props. and_then (subscript page_props ''directoryDoctors'')
               (\<lambda>directory_doctors. subscript directory_doctors ''data'')) of
        Inl (KeyError k) \<Rightarrow> Inl (RuntimeError (''Unexpected response shape for page '' @ str_int page))
      | Inl e \<Rightarrow> Inl e
      | Inr entries \<Rightarrow> Inr entries)"

definition fetch_page :: "pyenv \<Rightarrow> request list \<Rightarrow> string \<Rightarrow> json \<Rightarrow> string \<Rightarrow> int \<Rightarrow> request list \<times> (error + json)" where
  "fetch_page E reqs directory_url build_id path_part page =
     (case page_payload E reqs directory_url build_id path_part page of
        (reqs', r) \<Rightarrow> (reqs', and_then r (\<lambda>payload. page_data payload page)))"

text \<open>
  \<^verbatim>\<open>fetch_doctors\<close> is a generator function. Calling it runs nothing: it returns a
  generator, here the state \<open>Created\<close>. Each \<^verbatim>\<open>next\<close> runs the body up to the next
  \<^verbatim>\<open>yield\<close> (step \<open>Yield\<close>), to its end (\<open>Stop\<close>) or to an exception (\<open>Raise\<close>). The
  states in between are the two places where the body is suspended: inside
  \<^verbatim>\<open>yield from first_page.get("data", [])\<close>, with the entries still to come and the
  locals \<open>total_pages\<close> and \<open>max_pages\<close>, and at \<^verbatim>\<open>yield doctor\<close> in the loop over the
  pages, with the page number, the entries of that page still to come and
  \<open>pages_to_fetch\<close>.
\<close>

datatype gen =
    Created string "int option"
  | FirstPage string json string "json list" int "int option"
  | LaterPage string json string int "json list" int
  | Finished

datatype step = Yield json | Stop | Raise error

definition fetch_doctors :: "string \<Rightarrow> int option \<Rightarrow> gen" where
  "fetch_doctors directory_url max_pages = Created directory_url max_pages"

text \<open>The loop \<^verbatim>\<open>for page in range(2, pages_to_fetch + 1)\<close>, entered at \<open>page\<close>.\<close>

function later_pages :: "pyenv \<Rightarrow> request list \<Rightarrow> string \<Rightarrow> json \<Rightarrow> string \<Rightarrow> int \<Rightarrow> int \<Rightarrow> (request list \<times> gen) \<times> step" where
  "later_pages E reqs url build_id path_part page pages_to_fetch =
     (if page < pages_to_fetch + 1 then
        (case fetch_page E reqs url build_id path_part page of
           (reqs', Inl e) \<Rightarrow> ((reqs', Finished), Raise e)
         | (reqs', Inr entries) \<Rightarrow>
             (case items_of entries of
                Inl e \<Rightarrow> ((reqs', Finished), Raise e)
              | Inr [] \<Rightarrow> later_pages E reqs' url build_id path_part (page + 1) pages_to_fetch
              | Inr (doctor # rest) \<Rightarrow>
                  ((reqs', LaterPage url build_id path_part page rest pages_to_fetch), Yield doctor)))
      else ((reqs, Finished), Stop))"
  by pat_completeness auto
termination
  by (relation "measure (\<lambda>(E, reqs, url, build_id, path_part, page, pages_to_fetch).
        nat (pages_to_fetch + 1 - page))") auto

declare later_pages.simps [simp del]

text \<open>The body after the first page is exhausted: lines 46 to 49.\<close>

definition after_first_page :: "pyenv \<Rightarrow> request list \<Rightarrow> string \<Rightarrow> json \<Rightarrow> string \<Rightarrow> int \<Rightarrow> int option \<Rightarrow> (request list \<times> gen) \<times> step" where
  "after_first_page E reqs url build_id path_part total_pages max_pages =
     (let pages_to_fetch = (case max_pages of None \<Rightarrow> total_pages | Some m \<Rightarrow> min total_pages m)
      in later_pages E reqs url build_id path_part 2 pages_to_fetch)"

text \<open>The body from its start: lines 36 to 44.\<close>

definition start_body :: "pyenv \<Rightarrow> request list \<Rightarrow> string \<Rightarrow> int option \<Rightarrow> (request list \<times> gen) \<times> step" where
  "start_body E reqs url max_pages =
     (if (case max_pages of None \<Rightarrow> False | Some m \<Rightarrow> m < 1)
      then ((reqs, Finished), Raise (ValueError ''max_pages must be at least 1''))
      else
        (case get_html E reqs url of
           (reqs', Inl e) \<Rightarrow> ((reqs', Finished), Raise e)
         | (reqs', Inr initial_html) \<Rightarrow>
             (case parse_initial_payload E url initial_html of
                Inl e \<Rightarrow> ((reqs', Finished), Raise e)
              | Inr (build_id, path_part, first_page) \<Rightarrow>
                  (case and_then (dict_get first_page ''totalPages'' (JInt 1)) (py_int E) of
                     Inl e \<Rightarrow> ((reqs', Finished), Raise e)
                   | Inr total_pages \<Rightarrow>
                       (case and_then (dict_get first_page ''data'' (JArr [])) items_of of
                          Inl e \<Rightarrow> ((reqs', Finished), Raise e)
                        | Inr [] \<Rightarrow>
                            after_first_page E reqs' url build_id path_part total_pages max_pages
                        | Inr (doctor # rest) \<Rightarrow>
                            ((reqs', FirstPage url build_id path_part rest total_pages max_pages),
                             Yield doctor))))))"

text \<open>\<^verbatim>\<open>next(g)\<close>; a generator that has finished or raised only stops.\<close>

definition gen_next :: "pyenv \<Rightarrow> request list \<times> gen \<Rightarrow> (request list \<times> gen) \<times> step" where
  "gen_next E st =
     (case st of
        (reqs, Created url max_pages) \<Rightarrow> start_body E reqs url max_pages
      | (reqs, FirstPage url build_id path_part entries total_pages max_pages) \<Rightarrow>
          (case entries of
             [] \<Rightarrow> after_first_page E reqs url build_id path_part total_pages max_pages
           | doctor # rest \<Rightarrow>
               ((reqs, FirstPage url build_id path_part rest total_pages max_pages), Yield doctor))
      | (reqs, LaterPage url build_id path_part page entries pages_to_fetch) \<Rightarrow>
          (case entries of
             [] \<Rightarrow> later_pages E reqs url build_id path_part (page + 1) pages_to_fetch
           | doctor # rest \<Rightarrow>
               ((reqs, LaterPage url build_id path_part page rest pages_to_fetch), Yield doctor))
      | (reqs, Finished) \<Rightarrow> ((reqs, Finished), Stop))"

text \<open>
  How far a generator is from its end: the part of the body it is in, the pages still to
  come and the entries still to come of the page at hand.
\<close>

definition gen_rank :: "gen \<Rightarrow> nat \<times> nat \<times> nat" where
  "gen_rank g =
     (case g of
        Created url max_pages \<Rightarrow> (3, 0, 0)
      | FirstPage url build_id path_part entries total_pages max_pages \<Rightarrow> (2, 0, length entries)
      | LaterPage url build_id path_part page entries pages_to_fetch \<Rightarrow>
          (1, nat (pages_to_fetch - page), length entries)
      | Finished \<Rightarrow> (0, 0, 0))"

text \<open>\<^verbatim>\<open>list(g)\<close>: the entries the generator yields, or the exception that ends it.\<close>

function drain :: "pyenv \<Rightarrow> request list \<times> gen \<Rightarrow> json list \<Rightarrow> request list \<times> (error + json list)" where
  "drain E st doctors =
     (case gen_next E st of
        (st', Yield doctor) \<Rightarrow> drain E st' (doctors @ [doctor])
      | (st', Stop) \<Rightarrow> (fst st', Inr doctors)
      | (st', Raise e) \<Rightarrow> (fst st', Inl e))"
  by pat_completeness auto
termination
proof (relation "inv_image (less_than <*lex*> less_than <*lex*> less_than)
                   (\<lambda>(E, st, doctors). gen_rank (snd st))")
  show "wf (inv_image (less_than <*lex*> less_than <*lex*> less_than)
              (\<lambda>(E :: pyenv, st :: request list \<times> gen, doctors :: json list). gen_rank (snd st)))"
    by (intro wf_inv_image wf_lex_prod wf_less_than)
next
  fix E :: pyenv and st st' :: "request list \<times> gen" and doctors :: "json list"
    and s :: step and doctor :: json
  assume "(st', s) = gen_next E st" and "s = Yield doctor"
  then have next_st: "gen_next E st = (st', Yield doctor)"
    by (simp del: split_paired_All)
  have later: "\<exists>p ds. g' = LaterPage url b pp p ds n \<and> page \<le> p \<and> p \<le> n"
    if "later_pages E reqs url b pp page n = ((reqs', g'), Yield d)"
    for reqs url b pp page n reqs' g' d
    using that
  proof (induction E reqs url b pp page n rule: later_pages.induct)
    case (1 E reqs url b pp page n)
    from "1.prems" have in_range: "page < n + 1"
      by (subst (asm) later_pages.simps) (auto split: if_splits)
    obtain reqs1 r where fp: "fetch_page E reqs url b pp page = (reqs1, r)"
      by (cases "fetch_page E reqs url b pp page")
    show ?case
    proof (cases r)
      case (Inl e)
      with "1.prems" in_range fp show ?thesis
        by (subst (asm) later_pages.simps) simp
    next
      case (Inr entries)
      show ?thesis
      proof (cases "items_of entries")
        case (Inl e)
        with "1.prems" in_range fp Inr show ?thesis
          by (subst (asm) later_pages.simps) simp
      next
        case items: (Inr ds)
        show ?thesis
        proof (cases ds)
          case Nil
          with "1.prems" in_range fp Inr items
          have "later_pages E reqs1 url b pp (page + 1) n = ((reqs', g'), Yield d)"
            by (subst (asm) later_pages.simps) simp
          with "1.IH" [OF in_range fp [symmetric] Inr items Nil]
          show ?thesis by force
        next
          case (Cons d' ds')
          with "1.prems" in_range fp Inr items show ?thesis
            by (subst (asm) later_pages.simps) auto
        qed
      qed
    qed
  qed
  obtain reqs g where st: "st = (reqs, g)" by (cases st)
  obtain reqs' g' where st': "st' = (reqs', g')" by (cases st')
  have "(gen_rank g', gen_rank g) \<in> less_than <*lex*> less_than <*lex*> less_than"
  proof (cases g)
    case (Created url max_pages)
    with next_st st st' have sb: "start_body E reqs url max_pages = ((reqs', g'), Yield doctor)"
      by (simp add: gen_next_def)
    have "fst (gen_rank g') < 3"
    proof (cases g')
      case Created': (Created u m)
      from sb have False
        unfolding start_body_def after_first_page_def Created'
        by (auto split: if_splits prod.splits sum.splits list.splits dest!: later)
      then show ?thesis ..
    qed (simp_all add: gen_rank_def)
    with Created show ?thesis
      by (cases "gen_rank g'") (simp add: gen_rank_def)
  next
    case (FirstPage url b pp entries total_pages max_pages)
    show ?thesis
    proof (cases entries)
      case Nil
      with next_st st st' FirstPage
      have "after_first_page E reqs url b pp total_pages max_pages = ((reqs', g'), Yield doctor)"
        by (simp add: gen_next_def)
      then obtain p ds n where "g' = LaterPage url b pp p ds n"
        unfolding after_first_page_def Let_def by (blast dest: later)
      with FirstPage show ?thesis
        by (simp add: gen_rank_def)
    next
      case (Cons d ds)
      with next_st st st' FirstPage show ?thesis
        by (auto simp: gen_next_def gen_rank_def)
    qed
  next
    case (LaterPage url b pp page entries n)
    show ?thesis
    proof (cases entries)
      case Nil
      with next_st st st' LaterPage
      have "later_pages E reqs url b pp (page + 1) n = ((reqs', g'), Yield doctor)"
        by (simp add: gen_next_def)
      then obtain p ds where "g' = LaterPage url b pp p ds n" "page + 1 \<le> p" "p \<le> n"
        by (blast dest: later)
      with LaterPage show ?thesis
        by (simp add: gen_rank_def)
    next
      case (Cons d ds)
      with next_st st st' LaterPage show ?thesis
        by (auto simp: gen_next_def gen_rank_def)
    qed
  next
    case Finished
    with next_st st show ?thesis
      by (simp add: gen_next_def)
  qed
  with st st' show "((E, st', doctors @ [doctor]), (E, st, doctors))
      \<in> inv_image (less_than <*lex*> less_than <*lex*> less_than)
           (\<lambda>(E, st, doctors). gen_rank (snd st))"
    by simp
qed

declare drain.simps [simp del]

section \<open>MedicosDocScraper: filtering\<close>

text \<open>\<^verbatim>\<open>_doctor_specialty\<close>.\<close>

definition doctor_specialty :: "json \<Rightarrow> error + json" where
  "doctor_specialty doctor =
     and_then (dict_get doctor ''SubSpecialties'' JNull)
       (\<lambda>sub. and_then (dict_get (py_or sub (JObj [])) ''Specialty'' JNull)
         (\<lambda>sp. let specialty_data = py_or sp (JObj [])
               in and_then (dict_get specialty_data ''SpecialityNameEnglish'' JNull)
                    (\<lambda>english. if truthy english then Inr english
                                else dict_get specialty_data ''SpecialityName'' JNull)))"

text \<open>
  The loop of \<^verbatim>\<open>filter_by_specialty\<close> over the doctors still to visit, with the list
  \<open>matches\<close> built so far. \<^verbatim>\<open>target in text\<close> is \<^const>\<open>sublist\<close>.
\<close>

fun filter_loop :: "(string \<Rightarrow> string) \<Rightarrow> string \<Rightarrow> json list \<Rightarrow> json list \<Rightarrow> error + json list" where
  "filter_loop nfkd target [] matches = Inr matches"
| "filter_loop nfkd target (doctor # doctors) matches =
     (case doctor_specialty doctor of
        Inl e \<Rightarrow> Inl e
      | Inr specialty_name \<Rightarrow>
          if \<not> truthy specialty_name then filter_loop nfkd target doctors matches
          else
            (case normalize_text nfkd specialty_name of
               Inl e \<Rightarrow> Inl e
             | Inr normalized \<Rightarrow>
                 if sublist target normalized
                 then filter_loop nfkd target doctors (matches @ [doctor])
                 else filter_loop nfkd target doctors matches))"

text \<open>
  \<^verbatim>\<open>filter_by_specialty\<close>: the lines it prints and what it returns. The doctors are a
  list (the callers pass \<^verbatim>\<open>list(scraper.fetch_doctors(...))\<close>).
\<close>

definition filter_by_specialty :: "(string \<Rightarrow> string) \<Rightarrow> json list \<Rightarrow> json \<Rightarrow> string list \<times> (error + json list)" where
  "filter_by_specialty nfkd doctors specialty =
     (case normalize_text nfkd specialty of
        Inl e \<Rightarrow> ([], Inl e)
      | Inr target \<Rightarrow>
          ([''Total doctors: '' @ str_nat (length doctors)], filter_loop nfkd target doctors []))"

section \<open>MedicosDocScraper: records\<close>

text \<open>\<^verbatim>\<open>d.get(a) or d.get(b)\<close> and \<^verbatim>\<open>(d.get(a) or {}).get(k)\<close>.\<close>

definition get_either :: "json \<Rightarrow> string \<Rightarrow> string \<Rightarrow> error + json" where
  "get_either d a b =
     and_then (dict_get d a JNull) (\<lambda>x. if truthy x then Inr x else dict_get d b JNull)"

definition get_nested :: "json \<Rightarrow> string \<Rightarrow> string \<Rightarrow> error + json" where
  "get_nested d a k = and_then (dict_get d a JNull) (\<lambda>x. dict_get (py_or x (JObj [])) k JNull)"

text \<open>\<^verbatim>\<open>v.strip()\<close>: only a string has the method.\<close>

definition strip_method :: "json \<Rightarrow> error + string" where
  "strip_method v = (case v of JStr s \<Rightarrow> Inr (py_strip s) | _ \<Rightarrow> Inl AttributeError)"

text \<open>\<^verbatim>\<open>_build_name\<close>.\<close>

definition build_name :: "json \<Rightarrow> error + string" where
  "build_name doctor =
     and_then (dict_get doctor ''Name'' JNull)
       (\<lambda>n. and_then (strip_method (py_or n (JStr [])))
         (\<lambda>first_name. and_then (dict_get doctor ''LastName'' JNull)
           (\<lambda>l. and_then (strip_method (py_or l (JStr [])))
             (\<lambda>last_name. Inr (py_strip (first_name @ '' '' @ last_name))))))"

text \<open>\<^verbatim>\<open>_base_root\<close>.\<close>

definition base_root :: "pyenv \<Rightarrow> string \<Rightarrow> error + string" where
  "base_root E directory_url =
     and_then (urlparse E directory_url [])
       (\<lambda>parsed. Inr (urlunparse \<lparr>url_scheme = url_scheme parsed, url_netloc = url_netloc parsed,
                         url_path = ''/'', url_params = [], url_query = [], url_fragment = []\<rparr>))"

text \<open>
  \<^verbatim>\<open>urljoin(base_root, doctor.get("Photos") or "")\<close>: with a base that is not empty, a
  truthy second argument that is not a string raises TypeError.
\<close>

definition photo_url_of :: "pyenv \<Rightarrow> string \<Rightarrow> json \<Rightarrow> error + json" where
  "photo_url_of E base photos =
     (case py_or photos (JStr []) of
        JStr p \<Rightarrow> and_then (urljoin E base p) (\<lambda>u. Inr (JStr u))
      | _ \<Rightarrow> (if base = [] then Inr (py_or photos (JStr [])) else Inl TypeError))"

text \<open>
  \<^verbatim>\<open>to_record\<close>: the normalized record is a dictionary, its thirteen keys in the order
  the source writes them.
\<close>

definition to_record :: "pyenv \<Rightarrow> json \<Rightarrow> string \<Rightarrow> error + (string \<times> json) list" where
  "to_record E doctor directory_url =
     and_then (dict_get doctor ''Headquarters'' JNull) (\<lambda>hq.
     let head = py_or hq (JObj []) in
     and_then (get_nested doctor ''SubSpecialties'' ''Specialty'') (\<lambda>sp.
     let specialty_data = py_or sp (JObj []) in
     and_then (get_either specialty_data ''SpecialityNameEnglish'' ''SpecialityName'') (\<lambda>sn.
     let specialty = py_or sn (JStr []) in
     and_then (base_root E directory_url) (\<lambda>base.
     and_then (get_either doctor ''ShortId'' ''_id'') (\<lambda>ident.
     and_then (build_name doctor) (\<lambda>full_name.
     and_then (get_nested head ''CityId'' ''Name'') (\<lambda>city.
     and_then (dict_get head ''Address'' JNull) (\<lambda>address.
     and_then (dict_get head ''MedicalCenter'' JNull) (\<lambda>medical_center.
     and_then (dict_get head ''Office'' JNull) (\<lambda>office.
     and_then (get_either doctor ''HighlightedServicesEnglish'' ''HighlightedServices'') (\<lambda>services.
     and_then (dict_get doctor ''ConsultValue'' JNull) (\<lambda>consult_value.
     and_then (dict_get doctor ''Premium'' JNull) (\<lambda>premium.
     and_then (get_nested doctor ''RatingsSummary'' ''averageRating'') (\<lambda>rating_average.
     and_then (get_nested doctor ''RatingsSummary'' ''numberOfRatings'') (\<lambda>rating_count.
     and_then (dict_get doctor ''Photos'' JNull) (\<lambda>photos.
     and_then (photo_url_of E base photos) (\<lambda>photo_url.
       Inr [(''id'', ident),
            (''name'', JStr full_name),
            (''specialty'', specialty),
            (''city'', city),
            (''address'', address),
            (''medical_center'', medical_center),
            (''office'', office),
            (''highlighted_services'', services),
            (''consult_value'', consult_value),
            (''premium'', JBool (truthy premium)),
            (''rating_average'', rating_average),
            (''rating_count'', rating_count),
            (''photo_url'', photo_url)])))))))))))))))))"

section \<open>write_output\<close>

definition fieldnames :: "string list" where
  "fieldnames = [''id'', ''name'', ''specialty'', ''city'', ''address'', ''medical_center'',
     ''office'', ''highlighted_services'', ''consult_value'', ''premium'', ''rating_average'',
     ''rating_count'', ''photo_url'']"

text \<open>
  Where the output goes, and what is written. The text that \<^verbatim>\<open>json.dumps\<close> and
  \<^verbatim>\<open>csv.writer\<close> make of a value is theirs; the model keeps the values: for JSON the
  list of records handed to \<^verbatim>\<open>json.dumps(records, indent=2, ensure_ascii=False)\<close> and
  whether a newline follows it, for CSV the rows handed to the writer, the header first.
\<close>

datatype sink = Stdout | File string

datatype content =
    JsonText "(string \<times> json) list list" bool
  | CsvRows "json list list"

text \<open>
  \<^verbatim>\<open>DictWriter.writerows\<close>: each record becomes the row of its values under the field
  names, the empty string where it has none (\<^verbatim>\<open>restval\<close>); a record with a key that is
  not a field name raises ValueError, after the rows before it are written.
\<close>

fun dict_rows :: "(string \<times> json) list list \<Rightarrow> json list list \<times> error option" where
  "dict_rows [] = ([], None)"
| "dict_rows (r # rs) =
     (if list_ex (\<lambda>k. k \<notin> set fieldnames) (map fst r)
      then ([], Some (ValueError ''dict contains fields not in fieldnames''))
      else (case dict_rows rs of
              (rows, e) \<Rightarrow>
                (map (\<lambda>k. case map_of r k of None \<Rightarrow> JStr [] | Some v \<Rightarrow> v) fieldnames # rows, e)))"

text \<open>
  \<^verbatim>\<open>write_output\<close>: where it wrote, what it wrote, and the exception that ended it, if
  any. \<^verbatim>\<open>if destination\<close> holds for a path that is neither \<^verbatim>\<open>None\<close> nor empty.
\<close>

definition write_output :: "(string \<times> json) list list \<Rightarrow> string \<Rightarrow> string option \<Rightarrow> sink \<times> content \<times> error option" where
  "write_output records output_format destination =
     (let out = (case destination of
                   None \<Rightarrow> Stdout
                 | Some p \<Rightarrow> if p \<noteq> [] then File p else Stdout)
      in if output_format = ''json'' then (out, JsonText records (out = Stdout), None)
         else (case dict_rows records of
                 (rows, e) \<Rightarrow> (out, CsvRows (map JStr fieldnames # rows), e)))"

section \<open>A directory to run the scraper on\<close>

text \<open>
  A small site, to evaluate the functions on: its documents, what it answers to a request
  and the environment made of them. The text of a document is a name for it, which
  \<open>json_loads\<close> resolves; \<open>next_data\<close> is the document embedded in a directory page and
  \<open>data_page\<close> the answer of the data endpoint.
\<close>

definition entry :: "string \<Rightarrow> json" where
  "entry ident = JObj [(''ShortId'', JStr ident)]"

definition next_data :: "json list \<Rightarrow> (string \<times> json) list \<Rightarrow> json" where
  "next_data entries others =
     JObj [(''buildId'', JStr ''b1''),
           (''props'', JObj [(''pageProps'',
              JObj [(''directoryDoctors'', JObj ((''data'', JArr entries) # others))])])]"

definition data_page :: "json list \<Rightarrow> json" where
  "data_page entries =
     JObj [(''pageProps'', JObj [(''directoryDoctors'', JObj [(''data'', JArr entries)])])]"

text \<open>
  The directory \<open>/en/dir\<close> has three pages and says so; the directory \<open>/en/solo\<close> does
  not give \<open>totalPages\<close>; the data endpoint of \<open>/en/odd\<close> answers \<open>{"pageProps": null}\<close>
  and the one of \<open>/en/bare\<close> answers \<open>{"pageProps": {}}\<close>.
\<close>

definition demo_documents :: "(string \<times> json) list" where
  "demo_documents =
     [(''next:dir'', next_data [entry ''a'', entry ''b''] [(''totalPages'', JInt 3)]),
      (''dir:2'', data_page [entry ''c'']),
      (''dir:3'', data_page [entry ''d'']),
      (''next:solo'', next_data [entry ''s''] []),
      (''solo:2'', data_page [entry ''t'']),
      (''odd:2'', JObj [(''pageProps'', JNull)]),
      (''bare:2'', JObj [(''pageProps'', JObj [])])]"

definition demo_answers :: "(request \<times> string) list" where
  "demo_answers =
     [((''https://example.com/en/dir'', [], 30), ''html:dir''),
      ((''https://example.com/_next/data/b1/en/dir.json'', [(''page'', 2)], 30), ''dir:2''),
      ((''https://example.com/_next/data/b1/en/dir.json'', [(''page'', 3)], 30), ''dir:3''),
      ((''https://example.com/en/solo'', [], 30), ''html:solo''),
      ((''https://example.com/_next/data/b1/en/solo.json'', [(''page'', 2)], 30), ''solo:2''),
      ((''https://example.com/_next/data/b1/en/odd.json'', [(''page'', 2)], 30), ''odd:2''),
      ((''https://example.com/_next/data/b1/en/bare.json'', [(''page'', 2)], 30), ''bare:2'')]"

definition demo_get :: "request \<Rightarrow> error + response" where
  "demo_get rq =
     (case map_of demo_answers rq of
        None \<Rightarrow> Inr \<lparr>status_code = 404, body = []\<rparr>
      | Some b \<Rightarrow> Inr \<lparr>status_code = 200, body = b\<rparr>)"

definition demo_site :: pyenv where
  "demo_site =
     \<lparr>ip_address = (\<lambda>_. None),
      nfkc = (\<lambda>s. s),
      http_get = demo_get,
      soup_script = (\<lambda>html. if html = ''html:dir'' then Some (Some ''next:dir'')
                            else if html = ''html:solo'' then Some (Some ''next:solo'')
                            else None),
      json_loads = map_of demo_documents,
      int_of_str = (\<lambda>_. None),
      py_repr = (\<lambda>_. [])\<rparr>"

section \<open>The words of the specification\<close>

text \<open>
  The value of a field of a mapping, null when the field is absent or the value is not a
  mapping.
\<close>

definition field_of :: "json \<Rightarrow> string \<Rightarrow> json" where
  "field_of v k =
     (case v of
        JObj kvs \<Rightarrow> (case map_of kvs k of None \<Rightarrow> JNull | Some x \<Rightarrow> x)
      | _ \<Rightarrow> JNull)"

text \<open>An optional substructure is a mapping when it is there, an optional text a string.\<close>

definition obj_or_falsy :: "json \<Rightarrow> bool" where
  "obj_or_falsy v = (case v of JObj kvs \<Rightarrow> True | _ \<Rightarrow> \<not> truthy v)"

definition str_or_falsy :: "json \<Rightarrow> bool" where
  "str_or_falsy v = (case v of JStr s \<Rightarrow> True | _ \<Rightarrow> \<not> truthy v)"

text \<open>
  Looking for nested keys in a response: the value found, or the reason why there is none.
\<close>

datatype lookup = Present json | MissingKey | NotAMapping

fun nested :: "json \<Rightarrow> string list \<Rightarrow> lookup" where
  "nested v [] = Present v"
| "nested v (k # ks) =
     (case v of
        JObj kvs \<Rightarrow> (case map_of kvs k of None \<Rightarrow> MissingKey | Some x \<Rightarrow> nested x ks)
      | _ \<Rightarrow> NotAMapping)"

section \<open>Properties of text normalization\<close>

lemma len_upper_lower: "length ascii_upper = length ascii_lower"
  by (simp add: ascii_upper_def ascii_lower_def)

lemma strip_left_noop:
  "find (\<lambda>w. w \<noteq> [] \<and> prefix w s) ws = None \<Longrightarrow> strip_left ws s = s"
  by (simp add: strip_left.simps)

lemma strip_left_clean:
  "find (\<lambda>w. w \<noteq> [] \<and> prefix w (strip_left ws s)) ws = None"
proof (induction ws s rule: strip_left.induct)
  case (1 ws s)
  show ?case
  proof (cases "find (\<lambda>w. w \<noteq> [] \<and> prefix w s) ws")
    case None
    then show ?thesis by (simp add: strip_left.simps [of ws s])
  next
    case (Some w)
    with "1.IH" [OF Some] show ?thesis by (simp add: strip_left.simps [of ws s])
  qed
qed

lemma strip_left_suffix: "suffix (strip_left ws s) s"
proof (induction ws s rule: strip_left.induct)
  case (1 ws s)
  show ?case
  proof (cases "find (\<lambda>w. w \<noteq> [] \<and> prefix w s) ws")
    case None
    then show ?thesis by (simp add: strip_left.simps [of ws s])
  next
    case (Some w)
    have "suffix (strip_left ws (drop (length w) s)) (drop (length w) s)"
      using "1.IH" [OF Some] .
    then have "suffix (strip_left ws (drop (length w) s)) s"
      using suffix_drop suffix_order.trans by blast
    with Some show ?thesis by (simp add: strip_left.simps [of ws s])
  qed
qed

lemma find_None_prefix:
  assumes "find (\<lambda>w. w \<noteq> [] \<and> prefix w s) ws = None" and "prefix t s"
  shows "find (\<lambda>w. w \<noteq> [] \<and> prefix w t) ws = None"
  using assms by (auto simp: find_None_iff dest: prefix_order.trans)

lemma py_rstrip_prefix: "prefix (py_rstrip s) s"
  unfolding py_rstrip_def using strip_left_suffix [of "map rev whitespace" "rev s"]
  by (metis rev_rev_ident suffix_to_prefix)

lemma py_strip_idem: "py_strip (py_strip s) = py_strip s"
proof -
  let ?a = "py_lstrip s"
  let ?b = "py_rstrip ?a"
  have clean_a: "find (\<lambda>w. w \<noteq> [] \<and> prefix w ?a) whitespace = None"
    unfolding py_lstrip_def by (rule strip_left_clean)
  have "prefix ?b ?a" by (rule py_rstrip_prefix)
  with clean_a have "find (\<lambda>w. w \<noteq> [] \<and> prefix w ?b) whitespace = None"
    by (rule find_None_prefix)
  then have l: "py_lstrip ?b = ?b"
    unfolding py_lstrip_def by (rule strip_left_noop)
  have "find (\<lambda>w. w \<noteq> [] \<and> prefix w (rev ?b)) (map rev whitespace) = None"
    unfolding py_rstrip_def rev_rev_ident by (rule strip_left_clean)
  then have "strip_left (map rev whitespace) (rev ?b) = rev ?b"
    by (rule strip_left_noop)
  then have r: "py_rstrip ?b = ?b"
    by (simp add: py_rstrip_def)
  show ?thesis
    unfolding py_strip_def l r ..
qed

lemma set_py_strip: "set (py_strip s) \<subseteq> set s"
proof -
  have "set (py_rstrip t) \<subseteq> set t" for t
    using py_rstrip_prefix [of t] by (rule set_mono_prefix)
  moreover have "set (py_lstrip t) \<subseteq> set t" for t
    unfolding py_lstrip_def using strip_left_suffix [of whitespace t] by (rule set_mono_suffix)
  ultimately show ?thesis
    unfolding py_strip_def by blast
qed

lemma lower_char_range: "lower_char c \<notin> set ascii_upper"
proof (cases "map_of (zip ascii_upper ascii_lower) c")
  case None
  then have "c \<notin> set ascii_upper"
    by (simp add: map_of_zip_is_None [OF len_upper_lower])
  with None show ?thesis by (simp add: lower_char_def)
next
  case (Some d)
  then have "d \<in> set ascii_lower"
    by (meson map_of_SomeD set_zip_rightD)
  then have "d \<notin> set ascii_upper"
    by (auto simp: ascii_lower_def ascii_upper_def)
  with Some show ?thesis by (simp add: lower_char_def)
qed

lemma lower_char_fixed: "c \<notin> set ascii_upper \<Longrightarrow> lower_char c = c"
  by (simp add: lower_char_def map_of_zip_is_None [OF len_upper_lower, THEN iffD2])

lemma lower_char_ascii: "is_ascii c \<Longrightarrow> is_ascii (lower_char c)"
proof (cases "map_of (zip ascii_upper ascii_lower) c")
  case None
  assume "is_ascii c"
  with None show ?thesis by (simp add: lower_char_def)
next
  case (Some d)
  then have "d \<in> set ascii_lower"
    by (meson map_of_SomeD set_zip_rightD)
  then have "is_ascii d"
    by (auto simp: ascii_lower_def is_ascii_def)
  with Some show ?thesis by (simp add: lower_char_def)
qed

lemma normalize_text_JStr:
  "normalize_text nfkd (JStr s) = Inr (py_strip (map lower_char (filter is_ascii (nfkd s))))"
  by (cases s) (simp_all add: normalize_text_def py_or_def truthy_def)

lemma fixes_ascii_nfkd_latin: "fixes_ascii nfkd_latin"
  unfolding fixes_ascii_def
proof (intro allI impI)
  fix s assume "list_all is_ascii s"
  then show "nfkd_latin s = s"
    by (induction s rule: nfkd_latin.induct) (auto simp: is_ascii_def)
qed

text \<open>
  Claim C7. Normalizing is idempotent: for every string \<open>x\<close> the normalizer returns a
  string \<open>y\<close> (it does not raise), and normalizing \<open>y\<close> again returns \<open>y\<close>. The
  only fact used about the Unicode decomposition is that it leaves ASCII text unchanged.
\<close>

theorem normalize_idempotent:
  assumes "fixes_ascii nfkd"
  shows "\<exists>y. normalize_text nfkd (JStr x) = Inr y \<and> normalize_text nfkd (JStr y) = Inr y"
proof -
  define y where "y = py_strip (map lower_char (filter is_ascii (nfkd x)))"
  have sub: "set y \<subseteq> set (map lower_char (filter is_ascii (nfkd x)))"
    unfolding y_def by (rule set_py_strip)
  have asc: "list_all is_ascii y"
    using sub by (auto simp: list_all_iff intro: lower_char_ascii)
  have low: "map lower_char y = y"
  proof (rule map_idI)
    fix c assume "c \<in> set y"
    with sub obtain d where "c = lower_char d" by auto
    then show "lower_char c = c"
      using lower_char_range [of d] by (simp add: lower_char_fixed)
  qed
  have "nfkd y = y"
    using assms asc by (simp add: fixes_ascii_def)
  moreover have "filter is_ascii y = y"
    using asc by (simp add: list_all_iff)
  moreover have "py_strip y = y"
    unfolding y_def by (rule py_strip_idem)
  ultimately have "normalize_text nfkd (JStr y) = Inr y"
    by (simp add: normalize_text_JStr low)
  moreover have "normalize_text nfkd (JStr x) = Inr y"
    by (simp add: normalize_text_JStr y_def)
  ultimately show ?thesis by blast
qed

text \<open>
  The theorem at the text \<open>" Gyn\<acute>eC"\<close> followed by an em space and a tab, with
  the Latin decomposition: the normal form is \<open>gynec\<close>, and it is its own normal form.
\<close>

theorem normalize_idempotent_witness:
  "normalize_text nfkd_latin (JStr [CHR 0x20, CHR ''G'', CHR ''y'', CHR ''n'', CHR 0xC3, CHR 0xA9,
       CHR ''C'', CHR 0xE2, CHR 0x80, CHR 0x83, CHR 0x09]) = Inr ''gynec'' \<and>
   normalize_text nfkd_latin (JStr ''gynec'') = Inr ''gynec''"
proof -
  let ?x = "[CHR 0x20, CHR ''G'', CHR ''y'', CHR ''n'', CHR 0xC3, CHR 0xA9,
       CHR ''C'', CHR 0xE2, CHR 0x80, CHR 0x83, CHR 0x09]"
  have run: "normalize_text nfkd_latin (JStr ?x) = Inr ''gynec''"
    by code_simp
  from normalize_idempotent [OF fixes_ascii_nfkd_latin, of ?x]
  obtain y where "normalize_text nfkd_latin (JStr ?x) = Inr y"
    and again: "normalize_text nfkd_latin (JStr y) = Inr y"
    by blast
  with run have "y = ''gynec''" by simp
  with run again show ?thesis by simp
qed

end
